theory Spec2Isabelle
  imports Complex_Main
begin

section \<open>Order-management business case: the scenario engine\<close>

text \<open>
  A shallow embedding of the computational core of
  \<^verbatim>\<open>order_management_business_case.py\<close>: the six benefit calculators,
  \<^verbatim>\<open>calculate_scenario\<close> and \<^verbatim>\<open>get_benchmark_position\<close>.

  Python floats are modelled as the reals, so every statement below is about the
  formulas the code evaluates; neither binary rounding nor the overflow of a float is
  modelled. Python's unbounded
  \<^verbatim>\<open>int\<close> is \<^typ>\<open>int\<close>. The exceptions the core can raise are a division by
  zero and a missing dictionary key; both are values of \<open>py_error\<close>, and a function that
  can raise returns \<open>py_error + 'a\<close>.
\<close>

subsection \<open>Errors\<close>

datatype py_error = KeyError | ZeroDivisionError

definition py_div :: "real \<Rightarrow> real \<Rightarrow> py_error + real" where
  "py_div a b = (if b = 0 then Inl ZeroDivisionError else Inr (a / b))"

subsection \<open>Data model\<close>

text \<open>The dataclass \<^verbatim>\<open>FinancialInputs\<close>, field by field.\<close>

record FinancialInputs =
  annual_order_volume :: int
  average_order_value :: real
  profit_margin :: real
  current_dso :: real
  current_perfect_order_rate :: real
  current_cycle_time :: real
  current_revenue_leakage :: real
  current_cost_per_order :: real
  current_stp_rate :: real
  target_dso :: real
  target_perfect_order_rate :: real
  target_cycle_time :: real
  target_revenue_leakage :: real
  target_cost_per_order :: real
  target_stp_rate :: real
  avg_rework_cost :: real
  fully_loaded_hourly_rate :: real
  avg_manual_processing_time :: real
  initial_investment :: real
  annual_maintenance :: real
  change_management_cost :: real
  integration_cost :: real
  wacc :: real
  tax_rate :: real
  time_horizon :: int
  pilot_duration_months :: int
  limited_production_months :: int
  full_production_month :: int

text \<open>
  The dictionaries the calculators return. Several of them share a key
  (\<^verbatim>\<open>annual_savings\<close>, \<^verbatim>\<open>profit_impact\<close>), so each record's fields carry a
  prefix naming the calculator: \<open>wc\<close> working capital, \<open>er\<close> error reduction,
  \<open>rl\<close> revenue leakage, \<open>la\<close> labor automation, \<open>ct\<close> cycle time, \<open>co\<close> cost per
  order.
\<close>

record working_capital_result =
  wc_current_ar :: real
  wc_target_ar :: real
  wc_cash_freed :: real
  wc_annual_benefit :: real
  wc_dso_improvement_days :: real

record error_reduction_result =
  er_current_errors :: real
  er_target_errors :: real
  er_errors_eliminated :: real
  er_annual_savings :: real
  er_error_rate_improvement :: real

record revenue_leakage_result =
  rl_current_leakage_amount :: real
  rl_target_leakage_amount :: real
  rl_revenue_protected :: real
  rl_profit_impact :: real
  rl_leakage_reduction :: real

record labor_automation_result =
  la_current_manual_touches :: real
  la_target_manual_touches :: real
  la_touches_eliminated :: real
  la_hours_saved :: real
  la_annual_savings :: real
  la_fte_reduction :: real
  la_stp_improvement :: real

record cycle_time_result =
  ct_cycle_time_reduction_days :: real
  ct_cycle_time_reduction_pct :: real
  ct_additional_capacity_orders :: real
  ct_revenue_opportunity :: real
  ct_profit_impact :: real
  ct_capacity_capture_rate :: real

record cost_per_order_result =
  co_cost_reduction_per_order :: real
  co_cost_reduction_pct :: real
  co_annual_savings :: real

text \<open>One row of the cash-flow table (one dictionary appended to \<^verbatim>\<open>years\<close>).\<close>

record year_row =
  year :: int
  phase :: string
  adoption_rate :: real
  investment :: real
  maintenance :: real
  benefits :: real
  net_cf :: real
  cumulative_cf :: real
  discounted_cf :: real

text \<open>
  The dictionary \<^verbatim>\<open>calculate_scenario\<close> returns. Its key \<^verbatim>\<open>adoption_rate\<close> is
  the field \<open>scenario_adoption_rate\<close>, the name \<open>adoption_rate\<close> being taken by the rows;
  \<^verbatim>\<open>payback\<close> is \<^verbatim>\<open>None\<close> or a number.
\<close>

record scenario_result =
  scenario_type :: string
  scenario_adoption_rate :: real
  performance_multiplier :: real
  annual_revenue :: real
  working_capital :: working_capital_result
  error_reduction :: error_reduction_result
  revenue_leakage :: revenue_leakage_result
  labor_automation :: labor_automation_result
  cycle_time :: cycle_time_result
  cost_reduction :: cost_per_order_result
  total_annual_benefit :: real
  cash_flow_df :: "year_row list"
  npv :: real
  roi :: real
  payback :: "real option"
  total_investment :: real
  total_benefits :: real

subsection \<open>Benefit calculators\<close>

definition calculate_annual_revenue :: "int \<Rightarrow> real \<Rightarrow> real" where
  "calculate_annual_revenue volume avg_value = of_int volume * avg_value"

definition calculate_working_capital_benefit ::
  "real \<Rightarrow> real \<Rightarrow> real \<Rightarrow> real \<Rightarrow> working_capital_result" where
  "calculate_working_capital_benefit cur_dso tgt_dso revenue w =
     (let current_ar = (cur_dso / 365) * revenue;
          target_ar = (tgt_dso / 365) * revenue;
          cash_freed = current_ar - target_ar;
          annual_benefit = cash_freed * w
      in \<lparr>wc_current_ar = current_ar,
          wc_target_ar = target_ar,
          wc_cash_freed = cash_freed,
          wc_annual_benefit = annual_benefit,
          wc_dso_improvement_days = cur_dso - tgt_dso\<rparr>)"

definition calculate_error_reduction_benefit ::
  "real \<Rightarrow> real \<Rightarrow> int \<Rightarrow> real \<Rightarrow> error_reduction_result" where
  "calculate_error_reduction_benefit current_perfect_rate target_perfect_rate order_volume rework_cost =
     (let current_errors = of_int order_volume * (1 - current_perfect_rate);
          target_errors = of_int order_volume * (1 - target_perfect_rate);
          errors_eliminated = current_errors - target_errors;
          annual_savings = errors_eliminated * rework_cost
      in \<lparr>er_current_errors = current_errors,
          er_target_errors = target_errors,
          er_errors_eliminated = errors_eliminated,
          er_annual_savings = annual_savings,
          er_error_rate_improvement = (1 - current_perfect_rate) - (1 - target_perfect_rate)\<rparr>)"

definition calculate_revenue_leakage_benefit ::
  "real \<Rightarrow> real \<Rightarrow> real \<Rightarrow> real \<Rightarrow> revenue_leakage_result" where
  "calculate_revenue_leakage_benefit current_leakage target_leakage revenue margin =
     (let current_leakage_amount = revenue * current_leakage;
          target_leakage_amount = revenue * target_leakage;
          revenue_protected = current_leakage_amount - target_leakage_amount;
          profit_impact = revenue_protected * margin
      in \<lparr>rl_current_leakage_amount = current_leakage_amount,
          rl_target_leakage_amount = target_leakage_amount,
          rl_revenue_protected = revenue_protected,
          rl_profit_impact = profit_impact,
          rl_leakage_reduction = current_leakage - target_leakage\<rparr>)"

definition calculate_labor_automation_benefit ::
  "real \<Rightarrow> real \<Rightarrow> int \<Rightarrow> real \<Rightarrow> real \<Rightarrow> labor_automation_result" where
  "calculate_labor_automation_benefit cur_stp tgt_stp order_volume processing_time_minutes hourly_rate =
     (let current_manual = of_int order_volume * (1 - cur_stp);
          target_manual = of_int order_volume * (1 - tgt_stp);
          manual_touches_eliminated = current_manual - target_manual;
          hours_saved = (manual_touches_eliminated * processing_time_minutes) / 60;
          annual_savings = hours_saved * hourly_rate;
          fte_reduction = hours_saved / 2080
      in \<lparr>la_current_manual_touches = current_manual,
          la_target_manual_touches = target_manual,
          la_touches_eliminated = manual_touches_eliminated,
          la_hours_saved = hours_saved,
          la_annual_savings = annual_savings,
          la_fte_reduction = fte_reduction,
          la_stp_improvement = tgt_stp - cur_stp\<rparr>)"

text \<open>
  The cycle-time calculator divides by \<^verbatim>\<open>current_cycle_time\<close>; its last parameter
  is \<^verbatim>\<open>capacity_capture_rate\<close>, which \<^verbatim>\<open>calculate_scenario\<close> leaves at the
  default 0.30.
\<close>

definition calculate_cycle_time_benefit ::
  "real \<Rightarrow> real \<Rightarrow> int \<Rightarrow> real \<Rightarrow> real \<Rightarrow> real \<Rightarrow> py_error + cycle_time_result" where
  "calculate_cycle_time_benefit cur_cycle tgt_cycle order_volume avg_order_value margin capacity_capture_rate =
     (case py_div (cur_cycle - tgt_cycle) cur_cycle of
        Inl e \<Rightarrow> Inl e
      | Inr cycle_time_reduction_pct \<Rightarrow>
          (let additional_capacity = of_int order_volume * cycle_time_reduction_pct;
               revenue_opportunity = additional_capacity * avg_order_value * capacity_capture_rate;
               profit_impact = revenue_opportunity * margin
           in Inr \<lparr>ct_cycle_time_reduction_days = cur_cycle - tgt_cycle,
                   ct_cycle_time_reduction_pct = cycle_time_reduction_pct,
                   ct_additional_capacity_orders = additional_capacity,
                   ct_revenue_opportunity = revenue_opportunity,
                   ct_profit_impact = profit_impact,
                   ct_capacity_capture_rate = capacity_capture_rate\<rparr>))"

text \<open>The cost-per-order calculator divides by \<^verbatim>\<open>current_cost\<close>, after the savings are computed.\<close>

definition calculate_cost_per_order_benefit ::
  "real \<Rightarrow> real \<Rightarrow> int \<Rightarrow> py_error + cost_per_order_result" where
  "calculate_cost_per_order_benefit current_cost target_cost order_volume =
     (let cost_reduction' = current_cost - target_cost;
          annual_savings = cost_reduction' * of_int order_volume
      in case py_div cost_reduction' current_cost of
           Inl e \<Rightarrow> Inl e
         | Inr cost_reduction_pct \<Rightarrow>
             Inr \<lparr>co_cost_reduction_per_order = cost_reduction',
                  co_cost_reduction_pct = cost_reduction_pct,
                  co_annual_savings = annual_savings\<rparr>)"

subsection \<open>Benchmark classification\<close>

text \<open>
  \<^verbatim>\<open>INDUSTRY_BENCHMARKS\<close>: a dictionary from the metric's name to its four
  thresholds. The inner dictionaries all have the same four keys, read by name, so
  they are a record.
\<close>

record benchmark_levels =
  bottom_quartile :: real
  average :: real
  top_quartile :: real
  best_in_class :: real

definition INDUSTRY_BENCHMARKS :: "string \<rightharpoonup> benchmark_levels" where
  "INDUSTRY_BENCHMARKS = map_of
     [(''dso'', \<lparr>bottom_quartile = 52, average = 38, top_quartile = 31, best_in_class = 24\<rparr>),
      (''perfect_order_rate'',
         \<lparr>bottom_quartile = 0.68, average = 0.85, top_quartile = 0.93, best_in_class = 0.97\<rparr>),
      (''stp_rate'',
         \<lparr>bottom_quartile = 0.58, average = 0.78, top_quartile = 0.89, best_in_class = 0.95\<rparr>),
      (''cost_per_order'',
         \<lparr>bottom_quartile = 105, average = 62, top_quartile = 42, best_in_class = 28\<rparr>),
      (''revenue_leakage'',
         \<lparr>bottom_quartile = 0.12, average = 0.06, top_quartile = 0.03, best_in_class = 0.01\<rparr>)]"

text \<open>The nested function \<^verbatim>\<open>categorize\<close>, with the two variables it closes over.\<close>

definition categorize :: "string \<Rightarrow> benchmark_levels \<Rightarrow> real \<Rightarrow> string \<times> string" where
  "categorize metric_name benchmarks v =
     (if metric_name \<in> set [''dso'', ''cost_per_order'', ''revenue_leakage''] then
        (if v \<le> best_in_class benchmarks then (''Best-in-Class'', ''#28a745'')
         else if v \<le> top_quartile benchmarks then (''Top Quartile'', ''#20c997'')
         else if v \<le> average benchmarks then (''Average'', ''#ffc107'')
         else (''Bottom Quartile'', ''#dc3545''))
      else
        (if v \<ge> best_in_class benchmarks then (''Best-in-Class'', ''#28a745'')
         else if v \<ge> top_quartile benchmarks then (''Top Quartile'', ''#20c997'')
         else if v \<ge> average benchmarks then (''Average'', ''#ffc107'')
         else (''Bottom Quartile'', ''#dc3545'')))"

record benchmark_position =
  current_category :: string
  current_color :: string
  target_category :: string
  target_color :: string
  benchmarks_used :: benchmark_levels

definition get_benchmark_position :: "string \<Rightarrow> real \<Rightarrow> real \<Rightarrow> py_error + benchmark_position" where
  "get_benchmark_position metric_name current_value target_value =
     (case INDUSTRY_BENCHMARKS metric_name of
        None \<Rightarrow> Inl KeyError
      | Some benchmarks \<Rightarrow>
          (let (current_cat, current_col) = categorize metric_name benchmarks current_value;
               (target_cat, target_col) = categorize metric_name benchmarks target_value
           in Inr \<lparr>current_category = current_cat,
                   current_color = current_col,
                   target_category = target_cat,
                   target_color = target_col,
                   benchmarks_used = benchmarks\<rparr>))"

subsection \<open>Scenario calculation\<close>

text \<open>The table \<^verbatim>\<open>scenario_multipliers\<close>: scenario tag to (adoption, performance).\<close>

definition scenario_multipliers :: "string \<rightharpoonup> real \<times> real" where
  "scenario_multipliers = map_of
     [(''best'', (0.95, 1.10)),
      (''base'', (0.75, 1.00)),
      (''worst'', (0.50, 0.80))]"

text \<open>
  The record \<^verbatim>\<open>adj_inputs\<close> that \<^verbatim>\<open>calculate_scenario\<close> builds: the six targets
  are recomputed from \<^verbatim>\<open>perf\<close>, every other field is copied.
\<close>

definition adj_inputs :: "FinancialInputs \<Rightarrow> real \<Rightarrow> FinancialInputs" where
  "adj_inputs inputs perf =
     \<lparr>annual_order_volume = annual_order_volume inputs,
      average_order_value = average_order_value inputs,
      profit_margin = profit_margin inputs,
      current_dso = current_dso inputs,
      current_perfect_order_rate = current_perfect_order_rate inputs,
      current_cycle_time = current_cycle_time inputs,
      current_revenue_leakage = current_revenue_leakage inputs,
      current_cost_per_order = current_cost_per_order inputs,
      current_stp_rate = current_stp_rate inputs,
      target_dso = current_dso inputs - ((current_dso inputs - target_dso inputs) * perf),
      target_perfect_order_rate = current_perfect_order_rate inputs +
        ((target_perfect_order_rate inputs - current_perfect_order_rate inputs) * perf),
      target_cycle_time = current_cycle_time inputs -
        ((current_cycle_time inputs - target_cycle_time inputs) * perf),
      target_revenue_leakage = current_revenue_leakage inputs -
        ((current_revenue_leakage inputs - target_revenue_leakage inputs) * perf),
      target_cost_per_order = current_cost_per_order inputs -
        ((current_cost_per_order inputs - target_cost_per_order inputs) * perf),
      target_stp_rate = current_stp_rate inputs +
        ((target_stp_rate inputs - current_stp_rate inputs) * perf),
      avg_rework_cost = avg_rework_cost inputs,
      fully_loaded_hourly_rate = fully_loaded_hourly_rate inputs,
      avg_manual_processing_time = avg_manual_processing_time inputs,
      initial_investment = initial_investment inputs,
      annual_maintenance = annual_maintenance inputs,
      change_management_cost = change_management_cost inputs,
      integration_cost = integration_cost inputs,
      wacc = wacc inputs,
      tax_rate = tax_rate inputs,
      time_horizon = time_horizon inputs,
      pilot_duration_months = pilot_duration_months inputs,
      limited_production_months = limited_production_months inputs,
      full_production_month = full_production_month inputs\<rparr>"

text \<open>
  The loop \<^verbatim>\<open>for year in range(3, adj_inputs.time_horizon + 1)\<close>. Its state is the
  list \<^verbatim>\<open>years\<close> and the running \<^verbatim>\<open>cumulative_cf\<close>; the years still to visit are
  the first list argument. The loop variable is at least 3, so both exponents
  \<^verbatim>\<open>year - 2\<close> and \<^verbatim>\<open>year\<close> are natural numbers. The division that computes
  \<^verbatim>\<open>discounted_cf\<close> raises when \<^verbatim>\<open>(1 + wacc) ** year\<close> is zero.
\<close>

fun steady_state_loop ::
  "FinancialInputs \<Rightarrow> real \<Rightarrow> real \<Rightarrow> int list \<Rightarrow> year_row list \<times> real
     \<Rightarrow> py_error + (year_row list \<times> real)" where
  "steady_state_loop adj tab adoption [] st = Inr st"
| "steady_state_loop adj tab adoption (y # ys) (years, cumulative) =
     (let growth_factor = 1.03 ^ nat (y - 2);
          year_benefit = tab * adoption * growth_factor;
          year_maintenance = annual_maintenance adj * (1.02 ^ nat (y - 2));
          year_net = year_benefit - year_maintenance;
          cumulative' = cumulative + year_net
      in case py_div year_net ((1 + wacc adj) ^ nat y) of
           Inl e \<Rightarrow> Inl e
         | Inr discounted \<Rightarrow>
             steady_state_loop adj tab adoption ys
               (years @ [\<lparr>year = y,
                          phase = ''Steady State'',
                          adoption_rate = adoption,
                          investment = 0,
                          maintenance = year_maintenance,
                          benefits = year_benefit,
                          net_cf = year_net,
                          cumulative_cf = cumulative',
                          discounted_cf = discounted\<rparr>],
                cumulative'))"

text \<open>
  The year-by-year projection: the three ramp years written out as in the source, then
  the loop. \<open>tab\<close> is \<^verbatim>\<open>total_annual_benefit\<close>; the successive values of the
  variable \<^verbatim>\<open>cumulative_cf\<close> are \<open>cumulative0\<close>, \<open>cumulative1\<close>, \<open>cumulative2\<close>.
\<close>

definition build_years :: "FinancialInputs \<Rightarrow> real \<Rightarrow> real \<Rightarrow> py_error + year_row list" where
  "build_years adj tab adoption =
     (let year0_benefit = tab * 0.15 * adoption;
          year0_cost = initial_investment adj * 0.30 + change_management_cost adj * 0.50;
          year0_net = year0_benefit - year0_cost;
          cumulative0 = year0_net
      in case py_div year0_net ((1 + wacc adj) ^ 0) of
           Inl e \<Rightarrow> Inl e
         | Inr discounted0 \<Rightarrow>
      (let years0 = [\<lparr>year = 0,
                      phase = ''Pilot'',
                      adoption_rate = 0.15 * adoption,
                      investment = year0_cost,
                      maintenance = 0,
                      benefits = year0_benefit,
                      net_cf = year0_net,
                      cumulative_cf = cumulative0,
                      discounted_cf = discounted0\<rparr>];
           year1_benefit = tab * 0.45 * adoption;
           year1_cost = initial_investment adj * 0.50 + change_management_cost adj * 0.50
                          + integration_cost adj;
           year1_maintenance = annual_maintenance adj * 0.5;
           year1_net = year1_benefit - year1_cost - year1_maintenance;
           cumulative1 = cumulative0 + year1_net
       in case py_div year1_net ((1 + wacc adj) ^ 1) of
            Inl e \<Rightarrow> Inl e
          | Inr discounted1 \<Rightarrow>
      (let years1 = years0 @ [\<lparr>year = 1,
                               phase = ''Limited Production'',
                               adoption_rate = 0.45 * adoption,
                               investment = year1_cost,
                               maintenance = year1_maintenance,
                               benefits = year1_benefit,
                               net_cf = year1_net,
                               cumulative_cf = cumulative1,
                               discounted_cf = discounted1\<rparr>];
           year2_benefit = tab * 0.80 * adoption;
           year2_cost = initial_investment adj * 0.20;
           year2_maintenance = annual_maintenance adj;
           year2_net = year2_benefit - year2_cost - year2_maintenance;
           cumulative2 = cumulative1 + year2_net
       in case py_div year2_net ((1 + wacc adj) ^ 2) of
            Inl e \<Rightarrow> Inl e
          | Inr discounted2 \<Rightarrow>
      (let years2 = years1 @ [\<lparr>year = 2,
                               phase = ''Full Production'',
                               adoption_rate = 0.80 * adoption,
                               investment = year2_cost,
                               maintenance = year2_maintenance,
                               benefits = year2_benefit,
                               net_cf = year2_net,
                               cumulative_cf = cumulative2,
                               discounted_cf = discounted2\<rparr>]
       in case steady_state_loop adj tab adoption [3 .. time_horizon adj] (years2, cumulative2) of
            Inl e \<Rightarrow> Inl e
          | Inr (years, cumulative) \<Rightarrow> Inr years))))"

text \<open>\<^verbatim>\<open>df[col].sum()\<close>: the sum of one column of the table.\<close>

definition column_sum :: "(year_row \<Rightarrow> real) \<Rightarrow> year_row list \<Rightarrow> real" where
  "column_sum col df = sum_list (map col df)"

text \<open>
  The payback loop \<^verbatim>\<open>for idx, row in df.iterrows()\<close>: \<open>idx\<close> is the index of the
  first row still to visit, the last argument the rows still to visit. The loop breaks
  at the first row with a positive cumulative cash flow; falling off the end leaves
  \<^verbatim>\<open>payback = None\<close>. The read \<^verbatim>\<open>df.loc[idx - 1]\<close> happens only for \<open>idx > 0\<close>.
\<close>

fun payback_loop :: "year_row list \<Rightarrow> nat \<Rightarrow> year_row list \<Rightarrow> real option" where
  "payback_loop df idx [] = None"
| "payback_loop df idx (row # rest) =
     (if cumulative_cf row > 0 then
        (if idx = 0 then Some 0
         else
           (let prev_cf = cumulative_cf (df ! (idx - 1));
                curr_cf = cumulative_cf row;
                year_fraction = (if curr_cf - prev_cf \<noteq> 0 then \<bar>prev_cf\<bar> / (curr_cf - prev_cf) else 0)
            in Some (real (idx - 1) + year_fraction)))
      else payback_loop df (Suc idx) rest)"

definition calculate_scenario :: "FinancialInputs \<Rightarrow> string \<Rightarrow> py_error + scenario_result" where
  "calculate_scenario inputs tag =
     (case scenario_multipliers tag of
        None \<Rightarrow> Inl KeyError
      | Some (adoption, perf) \<Rightarrow>
     (let adj = adj_inputs inputs perf;
          revenue = calculate_annual_revenue (annual_order_volume adj) (average_order_value adj);
          wc_benefit = calculate_working_capital_benefit
                         (current_dso adj) (target_dso adj) revenue (wacc adj);
          error_benefit = calculate_error_reduction_benefit
                            (current_perfect_order_rate adj) (target_perfect_order_rate adj)
                            (annual_order_volume adj) (avg_rework_cost adj);
          leakage_benefit = calculate_revenue_leakage_benefit
                              (current_revenue_leakage adj) (target_revenue_leakage adj)
                              revenue (profit_margin adj);
          labor_benefit = calculate_labor_automation_benefit
                            (current_stp_rate adj) (target_stp_rate adj)
                            (annual_order_volume adj) (avg_manual_processing_time adj)
                            (fully_loaded_hourly_rate adj)
      in case calculate_cycle_time_benefit
                (current_cycle_time adj) (target_cycle_time adj)
                (annual_order_volume adj) (average_order_value adj) (profit_margin adj) 0.30 of
           Inl e \<Rightarrow> Inl e
         | Inr cycle_benefit \<Rightarrow>
     (case calculate_cost_per_order_benefit
             (current_cost_per_order adj) (target_cost_per_order adj) (annual_order_volume adj) of
        Inl e \<Rightarrow> Inl e
      | Inr cost_benefit \<Rightarrow>
     (let tab = adoption * (wc_annual_benefit wc_benefit +
                            er_annual_savings error_benefit +
                            rl_profit_impact leakage_benefit +
                            la_annual_savings labor_benefit +
                            ct_profit_impact cycle_benefit)
      in case build_years adj tab adoption of
           Inl e \<Rightarrow> Inl e
         | Inr df \<Rightarrow>
     (let npv' = column_sum discounted_cf df;
          total_investment' = column_sum investment df + column_sum maintenance df;
          total_benefits' = column_sum benefits df;
          roi' = (if total_investment' > 0
                  then ((total_benefits' - total_investment') / total_investment') * 100 else 0);
          payback' = payback_loop df 0 df
      in Inr \<lparr>scenario_type = tag,
              scenario_adoption_rate = adoption,
              performance_multiplier = perf,
              annual_revenue = revenue,
              working_capital = wc_benefit,
              error_reduction = error_benefit,
              revenue_leakage = leakage_benefit,
              labor_automation = labor_benefit,
              cycle_time = cycle_benefit,
              cost_reduction = cost_benefit,
              total_annual_benefit = tab,
              cash_flow_df = df,
              npv = npv',
              roi = roi',
              payback = payback',
              total_investment = total_investment',
              total_benefits = total_benefits'\<rparr>)))))"

subsection \<open>Specification vocabulary\<close>

text \<open>
  The input invariant of the specification (section 3): every rate is a fraction in
  \<open>[0, 1]\<close>, every monetary, volume and time field is positive, the horizon is at least
  three years, and each target is at least as good as the current value in the metric's
  preferred direction (equality allowed).
\<close>

definition valid_inputs :: "FinancialInputs \<Rightarrow> bool" where
  "valid_inputs i \<longleftrightarrow>
     0 < annual_order_volume i \<and> 0 < average_order_value i \<and>
     0 \<le> profit_margin i \<and> profit_margin i \<le> 1 \<and>
     0 < target_dso i \<and> target_dso i \<le> current_dso i \<and>
     0 \<le> current_perfect_order_rate i \<and>
     current_perfect_order_rate i \<le> target_perfect_order_rate i \<and>
     target_perfect_order_rate i \<le> 1 \<and>
     0 < target_cycle_time i \<and> target_cycle_time i \<le> current_cycle_time i \<and>
     0 \<le> target_revenue_leakage i \<and>
     target_revenue_leakage i \<le> current_revenue_leakage i \<and>
     current_revenue_leakage i \<le> 1 \<and>
     0 < target_cost_per_order i \<and> target_cost_per_order i \<le> current_cost_per_order i \<and>
     0 \<le> current_stp_rate i \<and> current_stp_rate i \<le> target_stp_rate i \<and>
     target_stp_rate i \<le> 1 \<and>
     0 < avg_rework_cost i \<and> 0 < fully_loaded_hourly_rate i \<and>
     0 < avg_manual_processing_time i \<and>
     0 < initial_investment i \<and> 0 < annual_maintenance i \<and>
     0 < change_management_cost i \<and> 0 < integration_cost i \<and>
     0 \<le> wacc i \<and> wacc i \<le> 1 \<and> 0 \<le> tax_rate i \<and> tax_rate i \<le> 1 \<and>
     3 \<le> time_horizon i \<and>
     0 < pilot_duration_months i \<and> 0 < limited_production_months i \<and>
     0 < full_production_month i"

text \<open>The three scenario tags of the specification.\<close>

definition scenario_tags :: "string set" where
  "scenario_tags = {''best'', ''base'', ''worst''}"

text \<open>
  The classifier as the specification words it: the thresholds in the order
  best-in-class, top quartile, average, compared with \<open>\<le>\<close> when lower is better and
  with \<open>\<ge>\<close> when higher is better, and the bottom quartile otherwise.
\<close>

definition spec_tier_lower_is_better :: "real \<Rightarrow> real \<Rightarrow> real \<Rightarrow> real \<Rightarrow> string" where
  "spec_tier_lower_is_better best_level top_level avg_level v =
     (if v \<le> best_level then ''Best-in-Class''
      else if v \<le> top_level then ''Top Quartile''
      else if v \<le> avg_level then ''Average''
      else ''Bottom Quartile'')"

definition spec_tier_higher_is_better :: "real \<Rightarrow> real \<Rightarrow> real \<Rightarrow> real \<Rightarrow> string" where
  "spec_tier_higher_is_better best_level top_level avg_level v =
     (if v \<ge> best_level then ''Best-in-Class''
      else if v \<ge> top_level then ''Top Quartile''
      else if v \<ge> avg_level then ''Average''
      else ''Bottom Quartile'')"

text \<open>
  A sample input: the values the input form of the application starts with (a DSO of 45
  days to be brought to 35, 50000 orders of 2500 each, a WACC of 8 percent, a horizon of
  five years).
\<close>

definition default_inputs :: FinancialInputs where
  "default_inputs =
     \<lparr>annual_order_volume = 50000, average_order_value = 2500, profit_margin = 0.15,
      current_dso = 45, current_perfect_order_rate = 0.75, current_cycle_time = 5.2,
      current_revenue_leakage = 0.08, current_cost_per_order = 85, current_stp_rate = 0.65,
      target_dso = 35, target_perfect_order_rate = 0.92, target_cycle_time = 3.0,
      target_revenue_leakage = 0.03, target_cost_per_order = 52, target_stp_rate = 0.88,
      avg_rework_cost = 85, fully_loaded_hourly_rate = 75, avg_manual_processing_time = 28,
      initial_investment = 500000, annual_maintenance = 100000,
      change_management_cost = 100000, integration_cost = 75000,
      wacc = 0.08, tax_rate = 0.25, time_horizon = 5,
      pilot_duration_months = 3, limited_production_months = 6, full_production_month = 10\<rparr>"

text \<open>
  A second sample input: the first one with every target but the DSO left at its
  current value and a horizon of three years, so that working capital is the only
  source of benefit.
\<close>

definition dso_only_inputs :: FinancialInputs where
  "dso_only_inputs =
     \<lparr>annual_order_volume = 50000, average_order_value = 2500, profit_margin = 0.15,
      current_dso = 45, current_perfect_order_rate = 0.75, current_cycle_time = 5.2,
      current_revenue_leakage = 0.08, current_cost_per_order = 85, current_stp_rate = 0.65,
      target_dso = 35, target_perfect_order_rate = 0.75, target_cycle_time = 5.2,
      target_revenue_leakage = 0.08, target_cost_per_order = 85, target_stp_rate = 0.65,
      avg_rework_cost = 85, fully_loaded_hourly_rate = 75, avg_manual_processing_time = 28,
      initial_investment = 500000, annual_maintenance = 100000,
      change_management_cost = 100000, integration_cost = 75000,
      wacc = 0.08, tax_rate = 0.25, time_horizon = 3,
      pilot_duration_months = 3, limited_production_months = 6, full_production_month = 10\<rparr>"

text \<open>
  The sum of the five benefit formulas of the specification (section 4.2) on the
  unadjusted inputs, that is, with every target met exactly and before the adoption
  rate is applied.
\<close>

definition improvement_value :: "FinancialInputs \<Rightarrow> real" where
  "improvement_value i =
     (current_dso i - target_dso i) / 365
        * (of_int (annual_order_volume i) * average_order_value i) * wacc i
   + of_int (annual_order_volume i)
        * (target_perfect_order_rate i - current_perfect_order_rate i) * avg_rework_cost i
   + (of_int (annual_order_volume i) * average_order_value i)
        * (current_revenue_leakage i - target_revenue_leakage i) * profit_margin i
   + of_int (annual_order_volume i) * (target_stp_rate i - current_stp_rate i)
        * avg_manual_processing_time i / 60 * fully_loaded_hourly_rate i
   + of_int (annual_order_volume i)
        * ((current_cycle_time i - target_cycle_time i) / current_cycle_time i)
        * average_order_value i * 0.30 * profit_margin i"

text \<open>
  \<open>cumulative_from c rows\<close>: down the rows, each \<open>cumulative_cf\<close> is the one before it
  (\<open>c\<close> for the first row) plus the row's own \<open>net_cf\<close>.
\<close>

fun cumulative_from :: "real \<Rightarrow> year_row list \<Rightarrow> bool" where
  "cumulative_from c [] = True"
| "cumulative_from c (r # rs) = (cumulative_cf r = c + net_cf r \<and> cumulative_from (c + net_cf r) rs)"

text \<open>
  The rows the steady-state loop appends when none of its divisions fails, as a
  function of the years visited and of the cumulative cash flow on entry.
\<close>

fun steady_rows :: "FinancialInputs \<Rightarrow> real \<Rightarrow> real \<Rightarrow> int list \<Rightarrow> real \<Rightarrow> year_row list" where
  "steady_rows adj tab ad [] cum = []"
| "steady_rows adj tab ad (y # ys) cum =
     (let net = tab * ad * 1.03 ^ nat (y - 2) - annual_maintenance adj * (1.02 ^ nat (y - 2))
      in \<lparr>year = y, phase = ''Steady State'', adoption_rate = ad, investment = 0,
          maintenance = annual_maintenance adj * (1.02 ^ nat (y - 2)),
          benefits = tab * ad * 1.03 ^ nat (y - 2),
          net_cf = net, cumulative_cf = cum + net,
          discounted_cf = net / (1 + wacc adj) ^ nat y\<rparr>
         # steady_rows adj tab ad ys (cum + net))"

section \<open>Properties\<close>

subsection \<open>The projection loop\<close>

lemma cumulative_from_nth:
  "cumulative_from c rs \<Longrightarrow> n < length rs \<Longrightarrow>
     cumulative_cf (rs ! n) = c + sum_list (map net_cf (take (Suc n) rs))"
proof (induction rs arbitrary: c n)
  case Nil
  then show ?case by simp
next
  case (Cons r rs)
  show ?case
  proof (cases n)
    case 0
    with Cons.prems show ?thesis by simp
  next
    case (Suc m)
    with Cons.prems have "m < length rs" and "cumulative_from (c + net_cf r) rs"
      and "cumulative_cf r = c + net_cf r" by simp_all
    with Cons.IH [of "c + net_cf r" m] Suc show ?thesis by simp
  qed
qed

lemma steady_state_loop_eq:
  "1 + wacc adj \<noteq> 0 \<Longrightarrow>
   steady_state_loop adj tab ad ys (years, cum) =
     Inr (years @ steady_rows adj tab ad ys cum,
          cum + sum_list (map net_cf (steady_rows adj tab ad ys cum)))"
  by (induction ys arbitrary: years cum) (simp_all add: Let_def py_div_def)

lemma steady_rows_year: "map year (steady_rows adj tab ad ys cum) = ys"
  by (induction ys arbitrary: cum) (simp_all add: Let_def)

lemma steady_rows_net_cf:
  "map net_cf (steady_rows adj tab ad ys cum)
     = map (\<lambda>r. benefits r - investment r - maintenance r) (steady_rows adj tab ad ys cum)"
  by (induction ys arbitrary: cum) (simp_all add: Let_def)

lemma steady_rows_discounted_cf:
  "map discounted_cf (steady_rows adj tab ad ys cum)
     = map (\<lambda>r. net_cf r / (1 + wacc adj) ^ nat (year r)) (steady_rows adj tab ad ys cum)"
  by (induction ys arbitrary: cum) (simp_all add: Let_def)

lemma steady_rows_cumulative: "cumulative_from cum (steady_rows adj tab ad ys cum)"
  by (induction ys arbitrary: cum) (simp_all add: Let_def)

lemma steady_rows_cumulative_eq: "c = cum \<Longrightarrow> cumulative_from c (steady_rows adj tab ad ys cum)"
  by (simp add: steady_rows_cumulative)

lemma build_years_Inr:
  assumes "1 + wacc adj \<noteq> 0"
  shows "\<exists>df. build_years adj tab ad = Inr df
     \<and> map year df = [0, 1, 2] @ [3 .. time_horizon adj]
     \<and> map net_cf df = map (\<lambda>r. benefits r - investment r - maintenance r) df
     \<and> map discounted_cf df = map (\<lambda>r. net_cf r / (1 + wacc adj) ^ nat (year r)) df
     \<and> cumulative_from 0 df"
  using assms
  apply (simp add: build_years_def Let_def py_div_def steady_state_loop_eq steady_rows_year
        steady_rows_net_cf [symmetric] steady_rows_discounted_cf [symmetric] del: map_eq_conv)
  apply (rule steady_rows_cumulative_eq)
  apply (simp add: field_simps)
  done


lemma build_years_not_Inl: "1 + wacc adj \<noteq> 0 \<Longrightarrow> build_years adj tab ad \<noteq> Inl e"
  using build_years_Inr [of adj tab ad] by auto

lemma adj_inputs_unchanged:
  "annual_order_volume (adj_inputs inputs perf) = annual_order_volume inputs"
  "average_order_value (adj_inputs inputs perf) = average_order_value inputs"
  "profit_margin (adj_inputs inputs perf) = profit_margin inputs"
  "current_dso (adj_inputs inputs perf) = current_dso inputs"
  "current_perfect_order_rate (adj_inputs inputs perf) = current_perfect_order_rate inputs"
  "current_cycle_time (adj_inputs inputs perf) = current_cycle_time inputs"
  "current_revenue_leakage (adj_inputs inputs perf) = current_revenue_leakage inputs"
  "current_cost_per_order (adj_inputs inputs perf) = current_cost_per_order inputs"
  "current_stp_rate (adj_inputs inputs perf) = current_stp_rate inputs"
  "avg_rework_cost (adj_inputs inputs perf) = avg_rework_cost inputs"
  "fully_loaded_hourly_rate (adj_inputs inputs perf) = fully_loaded_hourly_rate inputs"
  "avg_manual_processing_time (adj_inputs inputs perf) = avg_manual_processing_time inputs"
  "initial_investment (adj_inputs inputs perf) = initial_investment inputs"
  "annual_maintenance (adj_inputs inputs perf) = annual_maintenance inputs"
  "change_management_cost (adj_inputs inputs perf) = change_management_cost inputs"
  "integration_cost (adj_inputs inputs perf) = integration_cost inputs"
  "wacc (adj_inputs inputs perf) = wacc inputs"
  "tax_rate (adj_inputs inputs perf) = tax_rate inputs"
  "time_horizon (adj_inputs inputs perf) = time_horizon inputs"
  by (simp_all add: adj_inputs_def)

lemma calculate_scenario_InrD:
  assumes "calculate_scenario inputs tag = Inr r"
  shows "\<exists>ad perf adj. scenario_multipliers tag = Some (ad, perf)
     \<and> adj = adj_inputs inputs perf
     \<and> scenario_adoption_rate r = ad
     \<and> performance_multiplier r = perf
     \<and> annual_revenue r = calculate_annual_revenue (annual_order_volume adj) (average_order_value adj)
     \<and> working_capital r = calculate_working_capital_benefit
           (current_dso adj) (target_dso adj) (annual_revenue r) (wacc adj)
     \<and> error_reduction r = calculate_error_reduction_benefit
           (current_perfect_order_rate adj) (target_perfect_order_rate adj)
           (annual_order_volume adj) (avg_rework_cost adj)
     \<and> revenue_leakage r = calculate_revenue_leakage_benefit
           (current_revenue_leakage adj) (target_revenue_leakage adj)
           (annual_revenue r) (profit_margin adj)
     \<and> labor_automation r = calculate_labor_automation_benefit
           (current_stp_rate adj) (target_stp_rate adj)
           (annual_order_volume adj) (avg_manual_processing_time adj)
           (fully_loaded_hourly_rate adj)
     \<and> calculate_cycle_time_benefit
           (current_cycle_time adj) (target_cycle_time adj)
           (annual_order_volume adj) (average_order_value adj) (profit_margin adj) 0.30
         = Inr (cycle_time r)
     \<and> calculate_cost_per_order_benefit
           (current_cost_per_order adj) (target_cost_per_order adj) (annual_order_volume adj)
         = Inr (cost_reduction r)
     \<and> total_annual_benefit r = ad * (wc_annual_benefit (working_capital r) +
                                      er_annual_savings (error_reduction r) +
                                      rl_profit_impact (revenue_leakage r) +
                                      la_annual_savings (labor_automation r) +
                                      ct_profit_impact (cycle_time r))
     \<and> build_years adj (total_annual_benefit r) ad = Inr (cash_flow_df r)
     \<and> npv r = column_sum discounted_cf (cash_flow_df r)
     \<and> payback r = payback_loop (cash_flow_df r) 0 (cash_flow_df r)"
  using assms
  by (auto simp: calculate_scenario_def Let_def split: option.splits sum.splits)

lemma calculate_scenario_returns:
  assumes "scenario_multipliers tag = Some (ad, perf)"
    and "current_cycle_time inputs \<noteq> 0"
    and "current_cost_per_order inputs \<noteq> 0"
    and "1 + wacc inputs \<noteq> 0"
  shows "\<exists>r. calculate_scenario inputs tag = Inr r"
  using assms
  by (simp add: calculate_scenario_def Let_def calculate_cycle_time_benefit_def
        calculate_cost_per_order_benefit_def py_div_def adj_inputs_unchanged
        build_years_not_Inl split: sum.split)

subsection \<open>Scenario tags and valid inputs\<close>

lemma scenario_multipliers_best: "scenario_multipliers ''best'' = Some (0.95, 1.10)"
  by (simp add: scenario_multipliers_def)

lemma scenario_multipliers_base: "scenario_multipliers ''base'' = Some (0.75, 1.00)"
  by (simp add: scenario_multipliers_def)

lemma scenario_multipliers_worst: "scenario_multipliers ''worst'' = Some (0.50, 0.80)"
  by (simp add: scenario_multipliers_def)

lemma scenario_tags_cases:
  assumes "tag \<in> scenario_tags"
  obtains "tag = ''best''" | "tag = ''base''" | "tag = ''worst''"
  using assms unfolding scenario_tags_def by blast

lemma scenario_tags_multipliers:
  assumes "tag \<in> scenario_tags"
  shows "\<exists>ad perf. scenario_multipliers tag = Some (ad, perf)"
  using assms scenario_multipliers_best scenario_multipliers_base scenario_multipliers_worst
  by (elim scenario_tags_cases) blast+

lemma valid_default_inputs: "valid_inputs default_inputs"
  by (simp add: valid_inputs_def default_inputs_def)

lemma valid_inputs_returns:
  assumes "valid_inputs inputs" and "tag \<in> scenario_tags"
  shows "\<exists>r. calculate_scenario inputs tag = Inr r"
proof -
  from assms(2) obtain ad perf where "scenario_multipliers tag = Some (ad, perf)"
    using scenario_tags_multipliers by blast
  moreover from assms(1) have "current_cycle_time inputs \<noteq> 0"
    "current_cost_per_order inputs \<noteq> 0" "1 + wacc inputs \<noteq> 0"
    by (auto simp: valid_inputs_def)
  ultimately show ?thesis by (rule calculate_scenario_returns)
qed

subsection \<open>The cash-flow table of a result\<close>

lemma calculate_scenario_rows:
  assumes "calculate_scenario inputs tag = Inr r" and "1 + wacc inputs \<noteq> 0"
  shows "map year (cash_flow_df r) = [0, 1, 2] @ [3 .. time_horizon inputs]"
    and "map net_cf (cash_flow_df r)
           = map (\<lambda>row. benefits row - investment row - maintenance row) (cash_flow_df r)"
    and "map discounted_cf (cash_flow_df r)
           = map (\<lambda>row. net_cf row / (1 + wacc inputs) ^ nat (year row)) (cash_flow_df r)"
    and "cumulative_from 0 (cash_flow_df r)"
proof -
  from calculate_scenario_InrD [OF assms(1)] obtain ad perf where
    B: "build_years (adj_inputs inputs perf) (total_annual_benefit r) ad = Inr (cash_flow_df r)"
    by blast
  have w: "1 + wacc (adj_inputs inputs perf) \<noteq> 0"
    using assms(2) by (simp add: adj_inputs_unchanged)
  from build_years_Inr [OF w, of "total_annual_benefit r" ad] B
  have P: "map year (cash_flow_df r) = [0, 1, 2] @ [3 .. time_horizon (adj_inputs inputs perf)]"
    "map net_cf (cash_flow_df r)
       = map (\<lambda>row. benefits row - investment row - maintenance row) (cash_flow_df r)"
    "map discounted_cf (cash_flow_df r)
       = map (\<lambda>row. net_cf row / (1 + wacc (adj_inputs inputs perf)) ^ nat (year row)) (cash_flow_df r)"
    "cumulative_from 0 (cash_flow_df r)"
    by auto
  from P(1) show "map year (cash_flow_df r) = [0, 1, 2] @ [3 .. time_horizon inputs]"
    by (simp add: adj_inputs_unchanged)
  from P(2) show "map net_cf (cash_flow_df r)
           = map (\<lambda>row. benefits row - investment row - maintenance row) (cash_flow_df r)" .
  from P(3) show "map discounted_cf (cash_flow_df r)
           = map (\<lambda>row. net_cf row / (1 + wacc inputs) ^ nat (year row)) (cash_flow_df r)"
    by (simp add: adj_inputs_unchanged)
  from P(4) show "cumulative_from 0 (cash_flow_df r)" .
qed

lemma upto_from_0: "3 \<le> h \<Longrightarrow> [0, 1, 2] @ [3 .. h] = [0 .. h]"
  by (simp add: upto_rec1 [of 0 h] upto_rec1 [of 1 h] upto_rec1 [of 2 h])

lemma cost_per_order_InrD:
  "calculate_cost_per_order_benefit c t v = Inr res \<Longrightarrow>
     co_annual_savings res = (c - t) * of_int v"
  by (auto simp: calculate_cost_per_order_benefit_def Let_def split: sum.splits)

lemma cycle_time_InrD:
  "calculate_cycle_time_benefit c t v aov m k = Inr res \<Longrightarrow>
     c \<noteq> 0 \<and> ct_profit_impact res = of_int v * ((c - t) / c) * aov * k * m"
  by (auto simp: calculate_cycle_time_benefit_def py_div_def Let_def split: if_splits)

subsection \<open>The payback loop\<close>

lemma payback_loop_found:
  assumes "y < length df" and "idx \<le> y" and "cumulative_cf (df ! y) > 0"
    and "\<forall>j. idx \<le> j \<and> j < y \<longrightarrow> cumulative_cf (df ! j) \<le> 0"
  shows "payback_loop df idx (drop idx df) =
           Some (if y = 0 then 0
                 else real (y - 1) +
                   (if cumulative_cf (df ! y) - cumulative_cf (df ! (y - 1)) = 0 then 0
                    else \<bar>cumulative_cf (df ! (y - 1))\<bar>
                           / (cumulative_cf (df ! y) - cumulative_cf (df ! (y - 1)))))"
  using assms
proof (induction "y - idx" arbitrary: idx)
  case 0
  then have e: "idx = y" by simp
  from 0 have d: "drop y df = df ! y # drop (Suc y) df"
    by (simp add: Cons_nth_drop_Suc)
  show ?case
    using 0(4) by (simp add: e d Let_def)
next
  case (Suc k)
  then have lt: "idx < y" by simp
  with Suc.prems have d: "drop idx df = df ! idx # drop (Suc idx) df"
    by (simp add: Cons_nth_drop_Suc)
  from Suc.prems lt have np: "\<not> cumulative_cf (df ! idx) > 0"
    by (simp add: not_less)
  have "payback_loop df idx (drop idx df) = payback_loop df (Suc idx) (drop (Suc idx) df)"
    using np by (simp add: d)
  also have "\<dots> = Some (if y = 0 then 0
                 else real (y - 1) +
                   (if cumulative_cf (df ! y) - cumulative_cf (df ! (y - 1)) = 0 then 0
                    else \<bar>cumulative_cf (df ! (y - 1))\<bar>
                           / (cumulative_cf (df ! y) - cumulative_cf (df ! (y - 1)))))"
    using Suc.hyps(2) Suc.prems lt by (intro Suc.hyps(1)) auto
  finally show ?case .
qed

lemma payback_loop_none:
  assumes "\<forall>j. idx \<le> j \<and> j < length df \<longrightarrow> cumulative_cf (df ! j) \<le> 0"
  shows "payback_loop df idx (drop idx df) = None"
  using assms
proof (induction "length df - idx" arbitrary: idx)
  case 0
  then show ?case by simp
next
  case (Suc k)
  then have lt: "idx < length df" by simp
  then have d: "drop idx df = df ! idx # drop (Suc idx) df"
    by (simp add: Cons_nth_drop_Suc)
  from Suc.prems lt have np: "\<not> cumulative_cf (df ! idx) > 0"
    by (simp add: not_less)
  have "payback_loop df idx (drop idx df) = payback_loop df (Suc idx) (drop (Suc idx) df)"
    using np by (simp add: d)
  also have "\<dots> = None"
    using Suc.hyps(2) Suc.prems by (intro Suc.hyps(1)) auto
  finally show ?case .
qed

subsection \<open>The total annual benefit\<close>

lemma total_annual_benefit_scaled:
  assumes "calculate_scenario inputs tag = Inr r"
    and "scenario_multipliers tag = Some (ad, perf)"
  shows "total_annual_benefit r = ad * perf * improvement_value inputs"
proof -
  from calculate_scenario_InrD [OF assms(1)] assms(2)
  have T: "total_annual_benefit r =
           ad * (wc_annual_benefit (working_capital r) +
                 er_annual_savings (error_reduction r) +
                 rl_profit_impact (revenue_leakage r) +
                 la_annual_savings (labor_automation r) +
                 ct_profit_impact (cycle_time r))"
    and rev: "annual_revenue r = calculate_annual_revenue
               (annual_order_volume (adj_inputs inputs perf)) (average_order_value (adj_inputs inputs perf))"
    and wc: "working_capital r = calculate_working_capital_benefit
               (current_dso (adj_inputs inputs perf)) (target_dso (adj_inputs inputs perf))
               (annual_revenue r) (wacc (adj_inputs inputs perf))"
    and er: "error_reduction r = calculate_error_reduction_benefit
           (current_perfect_order_rate (adj_inputs inputs perf))
           (target_perfect_order_rate (adj_inputs inputs perf))
           (annual_order_volume (adj_inputs inputs perf)) (avg_rework_cost (adj_inputs inputs perf))"
    and rl: "revenue_leakage r = calculate_revenue_leakage_benefit
           (current_revenue_leakage (adj_inputs inputs perf))
           (target_revenue_leakage (adj_inputs inputs perf))
           (annual_revenue r) (profit_margin (adj_inputs inputs perf))"
    and la: "labor_automation r = calculate_labor_automation_benefit
           (current_stp_rate (adj_inputs inputs perf)) (target_stp_rate (adj_inputs inputs perf))
           (annual_order_volume (adj_inputs inputs perf))
           (avg_manual_processing_time (adj_inputs inputs perf))
           (fully_loaded_hourly_rate (adj_inputs inputs perf))"
    and ct: "calculate_cycle_time_benefit
           (current_cycle_time (adj_inputs inputs perf)) (target_cycle_time (adj_inputs inputs perf))
           (annual_order_volume (adj_inputs inputs perf))
           (average_order_value (adj_inputs inputs perf)) (profit_margin (adj_inputs inputs perf)) 0.30
         = Inr (cycle_time r)"
    by auto
  have a: "annual_revenue r = of_int (annual_order_volume inputs) * average_order_value inputs"
    using rev by (simp add: calculate_annual_revenue_def adj_inputs_unchanged)
  have c1: "wc_annual_benefit (working_capital r) =
      perf * ((current_dso inputs - target_dso inputs) / 365
        * (of_int (annual_order_volume inputs) * average_order_value inputs) * wacc inputs)"
    unfolding wc a
    by (simp add: calculate_working_capital_benefit_def Let_def adj_inputs_def field_simps)
  have c2: "er_annual_savings (error_reduction r) =
      perf * (of_int (annual_order_volume inputs)
        * (target_perfect_order_rate inputs - current_perfect_order_rate inputs)
        * avg_rework_cost inputs)"
    unfolding er
    by (simp add: calculate_error_reduction_benefit_def Let_def adj_inputs_def algebra_simps)
  have c3: "rl_profit_impact (revenue_leakage r) =
      perf * ((of_int (annual_order_volume inputs) * average_order_value inputs)
        * (current_revenue_leakage inputs - target_revenue_leakage inputs) * profit_margin inputs)"
    unfolding rl a
    by (simp add: calculate_revenue_leakage_benefit_def Let_def adj_inputs_def algebra_simps)
  have c4: "la_annual_savings (labor_automation r) =
      perf * (of_int (annual_order_volume inputs) * (target_stp_rate inputs - current_stp_rate inputs)
        * avg_manual_processing_time inputs / 60 * fully_loaded_hourly_rate inputs)"
    unfolding la
    by (simp add: calculate_labor_automation_benefit_def Let_def adj_inputs_def field_simps)
  from cycle_time_InrD [OF ct]
  have nz: "current_cycle_time inputs \<noteq> 0"
    and c5': "ct_profit_impact (cycle_time r) =
      of_int (annual_order_volume inputs)
        * ((current_cycle_time inputs - target_cycle_time (adj_inputs inputs perf))
             / current_cycle_time inputs)
        * average_order_value inputs * 0.30 * profit_margin inputs"
    by (simp_all add: adj_inputs_unchanged)
  have t: "current_cycle_time inputs - target_cycle_time (adj_inputs inputs perf)
             = perf * (current_cycle_time inputs - target_cycle_time inputs)"
    by (simp add: adj_inputs_def algebra_simps)
  have c5: "ct_profit_impact (cycle_time r) =
      perf * (of_int (annual_order_volume inputs)
        * ((current_cycle_time inputs - target_cycle_time inputs) / current_cycle_time inputs)
        * average_order_value inputs * 0.30 * profit_margin inputs)"
    unfolding c5' t by simp
  show ?thesis
    unfolding T c1 c2 c3 c4 c5 improvement_value_def by (simp only: distrib_left mult.assoc)
qed

lemma improvement_value_nonneg:
  assumes "valid_inputs i"
  shows "0 \<le> improvement_value i"
proof -
  from assms have v: "0 \<le> (of_int (annual_order_volume i) :: real)"
    and a: "0 \<le> average_order_value i" and m: "0 \<le> profit_margin i"
    and d: "0 \<le> current_dso i - target_dso i"
    and p: "0 \<le> target_perfect_order_rate i - current_perfect_order_rate i"
    and l: "0 \<le> current_revenue_leakage i - target_revenue_leakage i"
    and s: "0 \<le> target_stp_rate i - current_stp_rate i"
    and c: "0 \<le> current_cycle_time i - target_cycle_time i" and cc: "0 < current_cycle_time i"
    and w: "0 \<le> wacc i" and rw: "0 \<le> avg_rework_cost i"
    and t: "0 \<le> avg_manual_processing_time i" and h: "0 \<le> fully_loaded_hourly_rate i"
    by (auto simp: valid_inputs_def)
  have "0 \<le> (current_dso i - target_dso i) / 365
        * (of_int (annual_order_volume i) * average_order_value i) * wacc i"
    using d v a w by simp
  moreover have "0 \<le> of_int (annual_order_volume i)
        * (target_perfect_order_rate i - current_perfect_order_rate i) * avg_rework_cost i"
    using v p rw by simp
  moreover have "0 \<le> (of_int (annual_order_volume i) * average_order_value i)
        * (current_revenue_leakage i - target_revenue_leakage i) * profit_margin i"
    using v a l m by simp
  moreover have "0 \<le> of_int (annual_order_volume i) * (target_stp_rate i - current_stp_rate i)
        * avg_manual_processing_time i / 60 * fully_loaded_hourly_rate i"
    using v s t h by simp
  moreover have "0 \<le> of_int (annual_order_volume i)
        * ((current_cycle_time i - target_cycle_time i) / current_cycle_time i)
        * average_order_value i * 0.30 * profit_margin i"
    using v c cc a m by simp
  ultimately show ?thesis
    unfolding improvement_value_def by linarith
qed

section \<open>The claims\<close>

text \<open>
  Claim C2. For every base input and every scenario tag in best, base, worst, the
  table gives the tag its performance multiplier (1.10, 1.00, 0.80), and the adjusted
  record has: for the lower-is-better metrics (DSO, cycle time, revenue leakage, cost per
  order) target = current - (current - original target) * perf; for the higher-is-better
  metrics (perfect-order rate, STP rate) target = current + (original target - current) *
  perf.
\<close>

theorem C2_scenario_adjustment:
  assumes "tag \<in> scenario_tags"
  shows "\<exists>adoption perf. scenario_multipliers tag = Some (adoption, perf)
     \<and> perf = (if tag = ''best'' then 1.10 else if tag = ''base'' then 1.00 else 0.80)
     \<and> target_dso (adj_inputs inputs perf)
         = current_dso inputs - (current_dso inputs - target_dso inputs) * perf
     \<and> target_cycle_time (adj_inputs inputs perf)
         = current_cycle_time inputs - (current_cycle_time inputs - target_cycle_time inputs) * perf
     \<and> target_revenue_leakage (adj_inputs inputs perf)
         = current_revenue_leakage inputs
             - (current_revenue_leakage inputs - target_revenue_leakage inputs) * perf
     \<and> target_cost_per_order (adj_inputs inputs perf)
         = current_cost_per_order inputs
             - (current_cost_per_order inputs - target_cost_per_order inputs) * perf
     \<and> target_perfect_order_rate (adj_inputs inputs perf)
         = current_perfect_order_rate inputs
             + (target_perfect_order_rate inputs - current_perfect_order_rate inputs) * perf
     \<and> target_stp_rate (adj_inputs inputs perf)
         = current_stp_rate inputs + (target_stp_rate inputs - current_stp_rate inputs) * perf"
  using assms
proof (cases rule: scenario_tags_cases)
  case 1
  show ?thesis
    by (rule exI [of _ "0.95"], rule exI [of _ "1.10"])
       (simp add: 1 scenario_multipliers_best adj_inputs_def)
next
  case 2
  show ?thesis
    by (rule exI [of _ "0.75"], rule exI [of _ "1.00"])
       (simp add: 2 scenario_multipliers_base adj_inputs_def)
next
  case 3
  show ?thesis
    by (rule exI [of _ "0.50"], rule exI [of _ "0.80"])
       (simp add: 3 scenario_multipliers_worst adj_inputs_def)
qed

text \<open>
  The worst case on the sample input: 80 percent of the way from 45 to 35 days is 37
  days, and 80 percent of the way from an STP rate of 0.65 to 0.88 is 0.834.
\<close>

theorem C2_scenario_adjustment_witness:
  "''worst'' \<in> scenario_tags
   \<and> target_dso (adj_inputs default_inputs 0.80) = 37
   \<and> target_stp_rate (adj_inputs default_inputs 0.80) = 0.834"
proof -
  have h: "''worst'' \<in> scenario_tags"
    by (simp add: scenario_tags_def)
  from C2_scenario_adjustment [OF h, of default_inputs] obtain perf where
    p: "perf = 0.80"
    and d: "target_dso (adj_inputs default_inputs perf)
              = current_dso default_inputs
                  - (current_dso default_inputs - target_dso default_inputs) * perf"
    and s: "target_stp_rate (adj_inputs default_inputs perf)
              = current_stp_rate default_inputs
                  + (target_stp_rate default_inputs - current_stp_rate default_inputs) * perf"
    by auto
  show ?thesis
    using h d [unfolded p] s [unfolded p] by (simp add: default_inputs_def)
qed

text \<open>
  Claim C8. The classifier compares the value with the best-in-class, top-quartile and
  average thresholds of the metric's table entry, in that order, with \<open>\<le>\<close> for DSO,
  cost per order and revenue leakage and with \<open>\<ge>\<close> for perfect-order rate and STP rate,
  and answers Bottom Quartile when no threshold is met. The boundaries are inclusive: a
  DSO of 24 is Best-in-Class, a DSO of 53 is Bottom Quartile, a perfect-order rate of
  0.93 is Top Quartile.
\<close>

theorem C8_benchmark_classifier:
  "(\<forall>v t. \<exists>p. get_benchmark_position ''dso'' v t = Inr p
      \<and> current_category p = spec_tier_lower_is_better 24 31 38 v
      \<and> target_category p = spec_tier_lower_is_better 24 31 38 t)
   \<and> (\<forall>v t. \<exists>p. get_benchmark_position ''cost_per_order'' v t = Inr p
      \<and> current_category p = spec_tier_lower_is_better 28 42 62 v
      \<and> target_category p = spec_tier_lower_is_better 28 42 62 t)
   \<and> (\<forall>v t. \<exists>p. get_benchmark_position ''revenue_leakage'' v t = Inr p
      \<and> current_category p = spec_tier_lower_is_better 0.01 0.03 0.06 v
      \<and> target_category p = spec_tier_lower_is_better 0.01 0.03 0.06 t)
   \<and> (\<forall>v t. \<exists>p. get_benchmark_position ''perfect_order_rate'' v t = Inr p
      \<and> current_category p = spec_tier_higher_is_better 0.97 0.93 0.85 v
      \<and> target_category p = spec_tier_higher_is_better 0.97 0.93 0.85 t)
   \<and> (\<forall>v t. \<exists>p. get_benchmark_position ''stp_rate'' v t = Inr p
      \<and> current_category p = spec_tier_higher_is_better 0.95 0.89 0.78 v
      \<and> target_category p = spec_tier_higher_is_better 0.95 0.89 0.78 t)
   \<and> map_sum id current_category (get_benchmark_position ''dso'' 24 24) = Inr ''Best-in-Class''
   \<and> map_sum id current_category (get_benchmark_position ''dso'' 53 53) = Inr ''Bottom Quartile''
   \<and> map_sum id current_category (get_benchmark_position ''perfect_order_rate'' 0.93 0.93)
        = Inr ''Top Quartile''"
  by (simp add: get_benchmark_position_def INDUSTRY_BENCHMARKS_def categorize_def
        spec_tier_lower_is_better_def spec_tier_higher_is_better_def)

text \<open>
  Claim C10. The cost-per-order calculator divides by the current cost with no guard:
  at a current cost of zero it raises. For every positive current cost the division is
  defined and the calculator returns its three figures.
\<close>

theorem C10_cost_per_order_total:
  assumes "0 < current_cost"
  shows "calculate_cost_per_order_benefit current_cost target_cost order_volume =
           Inr \<lparr>co_cost_reduction_per_order = current_cost - target_cost,
                co_cost_reduction_pct = (current_cost - target_cost) / current_cost,
                co_annual_savings = (current_cost - target_cost) * of_int order_volume\<rparr>
     \<and> calculate_cost_per_order_benefit 0 target_cost order_volume = Inl ZeroDivisionError"
  using assms by (simp add: calculate_cost_per_order_benefit_def py_div_def Let_def)

theorem C10_cost_per_order_total_witness:
  "(0::real) < 85 \<and>
   calculate_cost_per_order_benefit 85 52 50000 =
     Inr \<lparr>co_cost_reduction_per_order = 33, co_cost_reduction_pct = 33 / 85,
          co_annual_savings = 1650000\<rparr>"
  using C10_cost_per_order_total [of 85 52 50000] by simp

text \<open>
  Claim C1 (what the code does at a concrete input). On the second sample input, base
  scenario, the total annual benefit is 0.75 * 273972.60... = 15000000 / 73, which
  already contains the adoption rate 0.75. The benefit column of the table is the ramp
  0.15, 0.45, 0.80, 1.03 applied to that total and multiplied by the adoption rate a
  second time; in no year is it the ramp applied to the total alone.
\<close>

theorem C1_benefits_multiplied_by_adoption_again:
  "\<exists>r. calculate_scenario dso_only_inputs ''base'' = Inr r
     \<and> scenario_adoption_rate r = 0.75
     \<and> total_annual_benefit r = 15000000 / 73
     \<and> map year (cash_flow_df r) = [0, 1, 2, 3]
     \<and> map benefits (cash_flow_df r)
         = [total_annual_benefit r * 0.15 * 0.75, total_annual_benefit r * 0.45 * 0.75,
            total_annual_benefit r * 0.80 * 0.75, total_annual_benefit r * 0.75 * 1.03 ^ 1]
     \<and> benefits (cash_flow_df r ! 0) \<noteq> total_annual_benefit r * 0.15
     \<and> benefits (cash_flow_df r ! 1) \<noteq> total_annual_benefit r * 0.45
     \<and> benefits (cash_flow_df r ! 2) \<noteq> total_annual_benefit r * 0.80
     \<and> benefits (cash_flow_df r ! 3) \<noteq> total_annual_benefit r * 1.03 ^ (3 - 2)"
  by (simp add: calculate_scenario_def scenario_multipliers_def dso_only_inputs_def adj_inputs_def
        calculate_annual_revenue_def calculate_working_capital_benefit_def
        calculate_error_reduction_benefit_def calculate_revenue_leakage_benefit_def
        calculate_labor_automation_benefit_def calculate_cycle_time_benefit_def
        calculate_cost_per_order_benefit_def py_div_def build_years_def Let_def
        column_sum_def)

text \<open>
  Claim C3. For every valid input and every scenario tag, the scenario is computed and
  its total annual benefit is the tag's adoption rate times the sum of five components:
  working-capital annual benefit, error-reduction annual savings, revenue-leakage profit
  impact, labor-automation annual savings and cycle-time profit impact. The
  cost-per-order annual savings are reported in the result, as (current cost - adjusted
  target cost) * volume, and are no summand of the total.
\<close>

theorem C3_total_annual_benefit:
  assumes "valid_inputs inputs" and "tag \<in> scenario_tags"
  shows "\<exists>r ad perf. calculate_scenario inputs tag = Inr r
     \<and> scenario_multipliers tag = Some (ad, perf)
     \<and> total_annual_benefit r =
           ad * (wc_annual_benefit (working_capital r) +
                 er_annual_savings (error_reduction r) +
                 rl_profit_impact (revenue_leakage r) +
                 la_annual_savings (labor_automation r) +
                 ct_profit_impact (cycle_time r))
     \<and> co_annual_savings (cost_reduction r) =
           (current_cost_per_order inputs - target_cost_per_order (adj_inputs inputs perf))
             * of_int (annual_order_volume inputs)"
proof -
  from valid_inputs_returns [OF assms] obtain r where R: "calculate_scenario inputs tag = Inr r"
    by blast
  from calculate_scenario_InrD [OF R] obtain ad perf where
    M: "scenario_multipliers tag = Some (ad, perf)"
    and T: "total_annual_benefit r =
           ad * (wc_annual_benefit (working_capital r) +
                 er_annual_savings (error_reduction r) +
                 rl_profit_impact (revenue_leakage r) +
                 la_annual_savings (labor_automation r) +
                 ct_profit_impact (cycle_time r))"
    and C: "calculate_cost_per_order_benefit
              (current_cost_per_order (adj_inputs inputs perf))
              (target_cost_per_order (adj_inputs inputs perf))
              (annual_order_volume (adj_inputs inputs perf)) = Inr (cost_reduction r)"
    by blast
  from cost_per_order_InrD [OF C]
  have "co_annual_savings (cost_reduction r) =
           (current_cost_per_order inputs - target_cost_per_order (adj_inputs inputs perf))
             * of_int (annual_order_volume inputs)"
    by (simp add: adj_inputs_unchanged)
  with R M T show ?thesis by blast
qed

theorem C3_total_annual_benefit_witness:
  "valid_inputs default_inputs \<and> ''base'' \<in> scenario_tags
   \<and> (\<exists>r. calculate_scenario default_inputs ''base'' = Inr r
         \<and> total_annual_benefit r =
              0.75 * (wc_annual_benefit (working_capital r) +
                      er_annual_savings (error_reduction r) +
                      rl_profit_impact (revenue_leakage r) +
                      la_annual_savings (labor_automation r) +
                      ct_profit_impact (cycle_time r))
         \<and> co_annual_savings (cost_reduction r) = 1650000)"
proof -
  have v: "valid_inputs default_inputs"
    by (simp add: valid_inputs_def default_inputs_def)
  have t: "''base'' \<in> scenario_tags"
    by (simp add: scenario_tags_def)
  from C3_total_annual_benefit [OF v t] obtain r ad perf where
    R: "calculate_scenario default_inputs ''base'' = Inr r"
    and M: "scenario_multipliers ''base'' = Some (ad, perf)"
    and T: "total_annual_benefit r =
           ad * (wc_annual_benefit (working_capital r) +
                 er_annual_savings (error_reduction r) +
                 rl_profit_impact (revenue_leakage r) +
                 la_annual_savings (labor_automation r) +
                 ct_profit_impact (cycle_time r))"
    and C: "co_annual_savings (cost_reduction r) =
           (current_cost_per_order default_inputs
              - target_cost_per_order (adj_inputs default_inputs perf))
             * of_int (annual_order_volume default_inputs)"
    by blast
  from M have ad: "ad = 0.75" and perf: "perf = 1.00"
    by (simp_all add: scenario_multipliers_base)
  have "co_annual_savings (cost_reduction r) = 1650000"
    unfolding C perf by (simp add: adj_inputs_def default_inputs_def)
  with v t R T [unfolded ad] show ?thesis by blast
qed

text \<open>
  Claim C4. For every valid input (so a horizon of at least three years) and every
  scenario tag, the scenario is computed and its table has exactly horizon + 1 rows; the
  row at index n has year n, its net cash flow is benefit - investment - maintenance,
  and its cumulative cash flow is the sum of the net cash flows of rows 0 to n.
\<close>

theorem C4_year_records:
  assumes "valid_inputs inputs" and "tag \<in> scenario_tags"
  shows "\<exists>r. calculate_scenario inputs tag = Inr r
     \<and> length (cash_flow_df r) = nat (time_horizon inputs + 1)
     \<and> (\<forall>n < length (cash_flow_df r).
           year (cash_flow_df r ! n) = int n
         \<and> net_cf (cash_flow_df r ! n)
             = benefits (cash_flow_df r ! n) - investment (cash_flow_df r ! n)
                 - maintenance (cash_flow_df r ! n)
         \<and> cumulative_cf (cash_flow_df r ! n)
             = sum_list (map net_cf (take (Suc n) (cash_flow_df r))))"
proof -
  from valid_inputs_returns [OF assms] obtain r where R: "calculate_scenario inputs tag = Inr r"
    by blast
  from assms(1) have w: "1 + wacc inputs \<noteq> 0" and h: "3 \<le> time_horizon inputs"
    by (auto simp: valid_inputs_def)
  let ?df = "cash_flow_df r"
  have Y: "map year ?df = [0 .. time_horizon inputs]"
    using calculate_scenario_rows(1) [OF R w] upto_from_0 [OF h] by simp
  have len: "length ?df = nat (time_horizon inputs + 1)"
    using arg_cong [OF Y, of length] by simp
  have "year (?df ! n) = int n
         \<and> net_cf (?df ! n) = benefits (?df ! n) - investment (?df ! n) - maintenance (?df ! n)
         \<and> cumulative_cf (?df ! n) = sum_list (map net_cf (take (Suc n) ?df))"
    if n: "n < length ?df" for n
  proof -
    have "map year ?df ! n = [0 .. time_horizon inputs] ! n"
      by (simp only: Y)
    with n len have y: "year (?df ! n) = int n"
      by simp
    have "map net_cf ?df ! n
            = map (\<lambda>row. benefits row - investment row - maintenance row) ?df ! n"
      by (simp only: calculate_scenario_rows(2) [OF R w])
    with n have nc: "net_cf (?df ! n)
        = benefits (?df ! n) - investment (?df ! n) - maintenance (?df ! n)"
      by simp
    have c: "cumulative_cf (?df ! n) = sum_list (map net_cf (take (Suc n) ?df))"
      using cumulative_from_nth [OF calculate_scenario_rows(4) [OF R w] n] by simp
    from y nc c show ?thesis by blast
  qed
  with R len show ?thesis by blast
qed

theorem C4_year_records_witness:
  "valid_inputs default_inputs \<and> ''best'' \<in> scenario_tags
   \<and> (\<exists>r. calculate_scenario default_inputs ''best'' = Inr r
         \<and> length (cash_flow_df r) = 6
         \<and> year (cash_flow_df r ! 5) = 5
         \<and> cumulative_cf (cash_flow_df r ! 5) = sum_list (map net_cf (cash_flow_df r)))"
proof -
  have v: "valid_inputs default_inputs"
    by (simp add: valid_inputs_def default_inputs_def)
  have t: "''best'' \<in> scenario_tags"
    by (simp add: scenario_tags_def)
  from C4_year_records [OF v t] obtain r where
    R: "calculate_scenario default_inputs ''best'' = Inr r"
    and L: "length (cash_flow_df r) = nat (time_horizon default_inputs + 1)"
    and N: "\<forall>n < length (cash_flow_df r).
           year (cash_flow_df r ! n) = int n
         \<and> net_cf (cash_flow_df r ! n)
             = benefits (cash_flow_df r ! n) - investment (cash_flow_df r ! n)
                 - maintenance (cash_flow_df r ! n)
         \<and> cumulative_cf (cash_flow_df r ! n)
             = sum_list (map net_cf (take (Suc n) (cash_flow_df r)))"
    by blast
  from L have L6: "length (cash_flow_df r) = 6"
    by (simp add: default_inputs_def)
  then have "5 < length (cash_flow_df r)"
    by simp
  with N have "year (cash_flow_df r ! 5) = int 5"
    and "cumulative_cf (cash_flow_df r ! 5) = sum_list (map net_cf (take (Suc 5) (cash_flow_df r)))"
    by blast+
  with L6 have "year (cash_flow_df r ! 5) = 5"
    and "cumulative_cf (cash_flow_df r ! 5) = sum_list (map net_cf (cash_flow_df r))"
    by simp_all
  with v t R L6 show ?thesis by blast
qed

text \<open>
  Claim C5. For every valid input and every scenario tag, the scenario is computed and
  its payback is optional: when y is the first row whose cumulative cash flow is
  positive, the payback is 0 if y = 0 and otherwise (y - 1) + |cumulative(y - 1)| /
  (cumulative(y) - cumulative(y - 1)), the fraction being 0 when the denominator is 0;
  when no row has a positive cumulative cash flow, the payback is absent.
\<close>

theorem C5_payback:
  assumes "valid_inputs inputs" and "tag \<in> scenario_tags"
  shows "\<exists>r. calculate_scenario inputs tag = Inr r
     \<and> (\<forall>y < length (cash_flow_df r).
           cumulative_cf (cash_flow_df r ! y) > 0
           \<and> (\<forall>j < y. cumulative_cf (cash_flow_df r ! j) \<le> 0)
           \<longrightarrow> payback r =
                 Some (if y = 0 then 0
                       else real (y - 1) +
                         (if cumulative_cf (cash_flow_df r ! y)
                               - cumulative_cf (cash_flow_df r ! (y - 1)) = 0 then 0
                          else \<bar>cumulative_cf (cash_flow_df r ! (y - 1))\<bar>
                                 / (cumulative_cf (cash_flow_df r ! y)
                                      - cumulative_cf (cash_flow_df r ! (y - 1))))))
     \<and> ((\<forall>y < length (cash_flow_df r). cumulative_cf (cash_flow_df r ! y) \<le> 0)
           \<longrightarrow> payback r = None)"
proof -
  from valid_inputs_returns [OF assms] obtain r where R: "calculate_scenario inputs tag = Inr r"
    by blast
  from calculate_scenario_InrD [OF R]
  have P: "payback r = payback_loop (cash_flow_df r) 0 (drop 0 (cash_flow_df r))"
    by auto
  have A: "payback r =
                 Some (if y = 0 then 0
                       else real (y - 1) +
                         (if cumulative_cf (cash_flow_df r ! y)
                               - cumulative_cf (cash_flow_df r ! (y - 1)) = 0 then 0
                          else \<bar>cumulative_cf (cash_flow_df r ! (y - 1))\<bar>
                                 / (cumulative_cf (cash_flow_df r ! y)
                                      - cumulative_cf (cash_flow_df r ! (y - 1)))))"
    if "y < length (cash_flow_df r)" "cumulative_cf (cash_flow_df r ! y) > 0"
      "\<forall>j < y. cumulative_cf (cash_flow_df r ! j) \<le> 0" for y
    unfolding P using that by (intro payback_loop_found) auto
  have B: "payback r = None"
    if "\<forall>y < length (cash_flow_df r). cumulative_cf (cash_flow_df r ! y) \<le> 0"
    unfolding P using that by (intro payback_loop_none) auto
  from R A B show ?thesis by blast
qed

text \<open>
  The worst case on the sample input: the cumulative cash flow is negative after years
  0 and 1 and positive after year 2, and the payback is 1 + 56035000 / 526320000 years.
\<close>

theorem C5_payback_witness:
  "valid_inputs default_inputs \<and> ''worst'' \<in> scenario_tags
   \<and> (\<exists>r. calculate_scenario default_inputs ''worst'' = Inr r
         \<and> cumulative_cf (cash_flow_df r ! 1) = - 56035000 / 949
         \<and> cumulative_cf (cash_flow_df r ! 2) = 470285000 / 949
         \<and> payback r = Some (116471 / 105264))"
proof -
  have v: "valid_inputs default_inputs"
    by (simp add: valid_inputs_def default_inputs_def)
  have t: "''worst'' \<in> scenario_tags"
    by (simp add: scenario_tags_def)
  have E: "\<exists>r. calculate_scenario default_inputs ''worst'' = Inr r
     \<and> length (cash_flow_df r) = 6
     \<and> cumulative_cf (cash_flow_df r ! 0) = - 55527500 / 949
     \<and> cumulative_cf (cash_flow_df r ! 1) = - 56035000 / 949
     \<and> cumulative_cf (cash_flow_df r ! 2) = 470285000 / 949"
    by (simp add: calculate_scenario_def scenario_multipliers_def default_inputs_def adj_inputs_def
        calculate_annual_revenue_def calculate_working_capital_benefit_def
        calculate_error_reduction_benefit_def calculate_revenue_leakage_benefit_def
        calculate_labor_automation_benefit_def calculate_cycle_time_benefit_def
        calculate_cost_per_order_benefit_def py_div_def build_years_def Let_def
        column_sum_def)
  then obtain r where R: "calculate_scenario default_inputs ''worst'' = Inr r"
    and L: "length (cash_flow_df r) = 6"
    and c0: "cumulative_cf (cash_flow_df r ! 0) = - 55527500 / 949"
    and c1: "cumulative_cf (cash_flow_df r ! 1) = - 56035000 / 949"
    and c2: "cumulative_cf (cash_flow_df r ! 2) = 470285000 / 949"
    by blast
  from C5_payback [OF v t] R
  have F: "\<forall>y < length (cash_flow_df r).
           cumulative_cf (cash_flow_df r ! y) > 0
           \<and> (\<forall>j < y. cumulative_cf (cash_flow_df r ! j) \<le> 0)
           \<longrightarrow> payback r =
                 Some (if y = 0 then 0
                       else real (y - 1) +
                         (if cumulative_cf (cash_flow_df r ! y)
                               - cumulative_cf (cash_flow_df r ! (y - 1)) = 0 then 0
                          else \<bar>cumulative_cf (cash_flow_df r ! (y - 1))\<bar>
                                 / (cumulative_cf (cash_flow_df r ! y)
                                      - cumulative_cf (cash_flow_df r ! (y - 1)))))"
    by auto
  have before: "\<forall>j < 2. cumulative_cf (cash_flow_df r ! j) \<le> 0"
  proof (intro allI impI)
    fix j :: nat
    assume "j < 2"
    then have "j = 0 \<or> j = 1" by auto
    then show "cumulative_cf (cash_flow_df r ! j) \<le> 0"
      using c0 c1 by auto
  qed
  have "2 < length (cash_flow_df r)"
    using L by simp
  moreover have "cumulative_cf (cash_flow_df r ! 2) > 0"
    using c2 by simp
  ultimately have "payback r =
      Some (if (2::nat) = 0 then 0
            else real (2 - 1) +
              (if cumulative_cf (cash_flow_df r ! 2)
                    - cumulative_cf (cash_flow_df r ! (2 - 1)) = 0 then 0
               else \<bar>cumulative_cf (cash_flow_df r ! (2 - 1))\<bar>
                      / (cumulative_cf (cash_flow_df r ! 2)
                           - cumulative_cf (cash_flow_df r ! (2 - 1)))))"
    using F before by blast
  moreover have "cumulative_cf (cash_flow_df r ! Suc 0) = - 56035000 / 949"
    using c1 by simp
  ultimately have "payback r = Some (116471 / 105264)"
    by (simp add: c2)
  with v t R c1 c2 show ?thesis by blast
qed

text \<open>
  Claim C6. For every input that satisfies the input invariant (each target at least as
  good as the current value in the metric's preferred direction), the three scenarios
  are computed and the total annual benefit of the best scenario is at least that of
  the base scenario, which is at least that of the worst scenario.
\<close>

theorem C6_scenario_monotonicity:
  assumes "valid_inputs inputs"
  shows "\<exists>rb rm rw. calculate_scenario inputs ''best'' = Inr rb
     \<and> calculate_scenario inputs ''base'' = Inr rm
     \<and> calculate_scenario inputs ''worst'' = Inr rw
     \<and> total_annual_benefit rb \<ge> total_annual_benefit rm
     \<and> total_annual_benefit rm \<ge> total_annual_benefit rw"
proof -
  have tags: "''best'' \<in> scenario_tags" "''base'' \<in> scenario_tags" "''worst'' \<in> scenario_tags"
    by (simp_all add: scenario_tags_def)
  from valid_inputs_returns [OF assms tags(1)] obtain rb where
    B: "calculate_scenario inputs ''best'' = Inr rb" by blast
  from valid_inputs_returns [OF assms tags(2)] obtain rm where
    M: "calculate_scenario inputs ''base'' = Inr rm" by blast
  from valid_inputs_returns [OF assms tags(3)] obtain rw where
    W: "calculate_scenario inputs ''worst'' = Inr rw" by blast
  note v = improvement_value_nonneg [OF assms]
  have b: "total_annual_benefit rb = 0.95 * 1.10 * improvement_value inputs"
    by (rule total_annual_benefit_scaled [OF B scenario_multipliers_best])
  have m: "total_annual_benefit rm = 0.75 * 1.00 * improvement_value inputs"
    by (rule total_annual_benefit_scaled [OF M scenario_multipliers_base])
  have w: "total_annual_benefit rw = 0.50 * 0.80 * improvement_value inputs"
    by (rule total_annual_benefit_scaled [OF W scenario_multipliers_worst])
  have "total_annual_benefit rb \<ge> total_annual_benefit rm"
    unfolding b m using v by simp
  moreover have "total_annual_benefit rm \<ge> total_annual_benefit rw"
    unfolding m w using v by simp
  ultimately show ?thesis using B M W by blast
qed

theorem C6_scenario_monotonicity_witness:
  "valid_inputs default_inputs
   \<and> (\<exists>rb rm rw. calculate_scenario default_inputs ''best'' = Inr rb
     \<and> calculate_scenario default_inputs ''base'' = Inr rm
     \<and> calculate_scenario default_inputs ''worst'' = Inr rw
     \<and> total_annual_benefit rb \<ge> total_annual_benefit rm
     \<and> total_annual_benefit rm \<ge> total_annual_benefit rw)"
proof -
  have v: "valid_inputs default_inputs"
    by (simp add: valid_inputs_def default_inputs_def)
  from C6_scenario_monotonicity [OF v] v show ?thesis by blast
qed

text \<open>
  Claim C7. For every valid input with a WACC of zero and every scenario tag, the
  scenario is computed, each discounted cash flow is the net cash flow of its row, and
  the NPV is the plain sum of the net cash flows.
\<close>

theorem C7_npv_zero_wacc:
  assumes "valid_inputs inputs" and "tag \<in> scenario_tags" and "wacc inputs = 0"
  shows "\<exists>r. calculate_scenario inputs tag = Inr r
     \<and> npv r = sum_list (map net_cf (cash_flow_df r))
     \<and> map discounted_cf (cash_flow_df r) = map net_cf (cash_flow_df r)"
proof -
  from valid_inputs_returns [OF assms(1,2)] obtain r where
    R: "calculate_scenario inputs tag = Inr r"
    by blast
  have w: "1 + wacc inputs \<noteq> 0"
    using assms(3) by simp
  have D: "map discounted_cf (cash_flow_df r) = map net_cf (cash_flow_df r)"
    using calculate_scenario_rows(3) [OF R w] assms(3) by simp
  from calculate_scenario_InrD [OF R] have "npv r = column_sum discounted_cf (cash_flow_df r)"
    by blast
  then have "npv r = sum_list (map net_cf (cash_flow_df r))"
    unfolding column_sum_def D .
  with R D show ?thesis by blast
qed

theorem C7_npv_zero_wacc_witness:
  "valid_inputs (default_inputs\<lparr>wacc := 0\<rparr>) \<and> ''base'' \<in> scenario_tags
   \<and> wacc (default_inputs\<lparr>wacc := 0\<rparr>) = 0
   \<and> (\<exists>r. calculate_scenario (default_inputs\<lparr>wacc := 0\<rparr>) ''base'' = Inr r
         \<and> npv r = sum_list (map net_cf (cash_flow_df r)))"
proof -
  have v: "valid_inputs (default_inputs\<lparr>wacc := 0\<rparr>)"
    by (simp add: valid_inputs_def default_inputs_def)
  have t: "''base'' \<in> scenario_tags"
    by (simp add: scenario_tags_def)
  have w: "wacc (default_inputs\<lparr>wacc := 0\<rparr>) = 0"
    by simp
  from C7_npv_zero_wacc [OF v t w] v t w show ?thesis by blast
qed

text \<open>
  Claim C9. For an input with 50000 orders of 2500 each, a DSO of 45 days with a target
  of 35 and a WACC of 0.08 (and positive current cycle time and cost per order, so that
  no division fails), the base scenario has an annual revenue of 125,000,000, frees
  (45 - 35) / 365 * 125,000,000 of working capital, within 0.01 of 3,424,657.53, and has
  a working-capital annual benefit of that times 0.08, within 0.01 of 273,972.60.
\<close>

theorem C9_working_capital_example:
  assumes "annual_order_volume inputs = 50000"
    and "average_order_value inputs = 2500"
    and "current_dso inputs = 45"
    and "target_dso inputs = 35"
    and "wacc inputs = 0.08"
    and "0 < current_cycle_time inputs"
    and "0 < current_cost_per_order inputs"
  shows "\<exists>r. calculate_scenario inputs ''base'' = Inr r
     \<and> annual_revenue r = 125000000
     \<and> wc_cash_freed (working_capital r) = (45 - 35) / 365 * 125000000
     \<and> \<bar>wc_cash_freed (working_capital r) - 3424657.53\<bar> \<le> 0.01
     \<and> wc_annual_benefit (working_capital r) = wc_cash_freed (working_capital r) * 0.08
     \<and> \<bar>wc_annual_benefit (working_capital r) - 273972.60\<bar> \<le> 0.01"
proof -
  have "\<exists>r. calculate_scenario inputs ''base'' = Inr r"
    using assms by (intro calculate_scenario_returns [OF scenario_multipliers_base]) simp_all
  then obtain r where R: "calculate_scenario inputs ''base'' = Inr r"
    by blast
  from calculate_scenario_InrD [OF R] scenario_multipliers_base
  have rev: "annual_revenue r = calculate_annual_revenue
               (annual_order_volume (adj_inputs inputs 1)) (average_order_value (adj_inputs inputs 1))"
    and wc: "working_capital r = calculate_working_capital_benefit
               (current_dso (adj_inputs inputs 1)) (target_dso (adj_inputs inputs 1))
               (annual_revenue r) (wacc (adj_inputs inputs 1))"
    by auto
  have a: "annual_revenue r = 125000000"
    using rev assms by (simp add: calculate_annual_revenue_def adj_inputs_unchanged)
  have t: "target_dso (adj_inputs inputs 1) = 35"
    using assms by (simp add: adj_inputs_def)
  have f: "wc_cash_freed (working_capital r) = (45 - 35) / 365 * 125000000"
    using wc a t assms
    by (simp add: calculate_working_capital_benefit_def Let_def adj_inputs_unchanged)
  have b: "wc_annual_benefit (working_capital r) = wc_cash_freed (working_capital r) * 0.08"
    using wc assms
    by (simp add: calculate_working_capital_benefit_def Let_def adj_inputs_unchanged)
  have f': "\<bar>wc_cash_freed (working_capital r) - 3424657.53\<bar> \<le> 0.01"
    unfolding f by simp
  have b': "\<bar>wc_annual_benefit (working_capital r) - 273972.60\<bar> \<le> 0.01"
    unfolding b f by simp
  from R a f f' b b' show ?thesis by blast
qed

theorem C9_working_capital_example_witness:
  "annual_order_volume dso_only_inputs = 50000
   \<and> average_order_value dso_only_inputs = 2500
   \<and> current_dso dso_only_inputs = 45
   \<and> target_dso dso_only_inputs = 35
   \<and> wacc dso_only_inputs = 0.08
   \<and> 0 < current_cycle_time dso_only_inputs
   \<and> 0 < current_cost_per_order dso_only_inputs
   \<and> (\<exists>r. calculate_scenario dso_only_inputs ''base'' = Inr r
         \<and> annual_revenue r = 125000000
         \<and> \<bar>wc_cash_freed (working_capital r) - 3424657.53\<bar> \<le> 0.01
         \<and> \<bar>wc_annual_benefit (working_capital r) - 273972.60\<bar> \<le> 0.01)"
proof -
  have h: "annual_order_volume dso_only_inputs = 50000"
    "average_order_value dso_only_inputs = 2500"
    "current_dso dso_only_inputs = 45"
    "target_dso dso_only_inputs = 35"
    "wacc dso_only_inputs = 0.08"
    "0 < current_cycle_time dso_only_inputs"
    "0 < current_cost_per_order dso_only_inputs"
    by (simp_all add: dso_only_inputs_def)
  from C9_working_capital_example [OF h] h show ?thesis by blast
qed

end
